theory Spec2Isabelle
  imports Complex_Main "HOL-Library.Word"
begin

unbundle bit_operations_syntax

section \<open>The module-level helpers of RPyPCA9685.py\<close>

text \<open>
  Python integers are unbounded and their bitwise operators act on the infinite two's
  complement representation, which is exactly how \<open>AND\<close>, \<open>OR\<close>, \<open>NOT\<close>,
  \<open>push_bit\<close> and \<open>drop_bit\<close> act on \<^typ>\<open>int\<close>. A shift count is a \<^typ>\<open>nat\<close>:
  Python raises ValueError on a negative one, and the module only ever shifts by the
  constant bit offsets and byte indices below.
\<close>

definition testBit :: "int \<Rightarrow> nat \<Rightarrow> int" where
  "testBit int_type offset = (let mask = push_bit offset 1 in int_type AND mask)"

definition setBit :: "int \<Rightarrow> nat \<Rightarrow> int" where
  "setBit int_type offset = (let mask = push_bit offset 1 in int_type OR mask)"

definition clearBit :: "int \<Rightarrow> nat \<Rightarrow> int" where
  "clearBit int_type offset = (let mask = NOT (push_bit offset 1) in int_type AND mask)"

definition getByte :: "int \<Rightarrow> nat \<Rightarrow> int" where
  "getByte int_type nth_byte = drop_bit (8 * nth_byte) int_type AND 255"

text \<open>
  \<open>testBit\<close> returns the masked integer, not a boolean; Python reads an integer as a
  truth value by comparing it with zero.
\<close>

definition truthy :: "int \<Rightarrow> bool" where
  "truthy v = (v \<noteq> 0)"

text \<open>\<open>int(x)\<close> on a float truncates towards zero.\<close>

definition py_int :: "real \<Rightarrow> int" where
  "py_int x = (if x < 0 then \<lceil>x\<rceil> else \<lfloor>x\<rfloor>)"

section \<open>The I2C bus and the chip behind it\<close>

text \<open>
  The quick2wire master takes a sequence of messages per \<open>transaction\<close> call and
  returns one byte sequence for each read message. The chip is modelled as a register
  file of 8-bit registers with a control register that the first byte of every write
  message selects; further bytes of the message are stored in the selected register, and
  a read message returns the selected register. Every bus event and every
  \<open>time.sleep\<close> (its argument in milliseconds) is appended to a trace.
\<close>

datatype message = writing_bytes int "int list" | reading int nat

datatype event = transaction "message list" | time_sleep nat | master_close

datatype error = Exception string | TypeError | IndexError

record chip =
  registers :: "int \<Rightarrow> 8 word"
  control :: int

definition chip_write :: "chip \<Rightarrow> int list \<Rightarrow> chip" where
  "chip_write c bs =
     (case bs of
        [] \<Rightarrow> c
      | r # vs \<Rightarrow>
          foldl (\<lambda>d v. d\<lparr>registers := (registers d)(r := word_of_int v)\<rparr>)
            (c\<lparr>control := r\<rparr>) vs)"

definition chip_read :: "chip \<Rightarrow> nat \<Rightarrow> int list" where
  "chip_read c n = replicate n (uint (registers c (control c)))"

fun run_messages :: "chip \<Rightarrow> message list \<Rightarrow> int list list \<times> chip" where
  "run_messages c [] = ([], c)"
| "run_messages c (writing_bytes a bs # ms) = run_messages (chip_write c bs) ms"
| "run_messages c (reading a n # ms) =
     (case run_messages c ms of (rs, c') \<Rightarrow> (chip_read c n # rs, c'))"

section \<open>The class PCA9685\<close>

record PCA9685 =
  ADDRESS :: int
  device :: chip
  trace :: "event list"

text \<open>
  A method is a function from the object to an outcome (an exception or a value) and
  the object afterwards.
\<close>

type_synonym 'a io = "PCA9685 \<Rightarrow> (error + 'a) \<times> PCA9685"

definition io_return :: "'a \<Rightarrow> 'a io" where
  "io_return x = (\<lambda>self. (Inr x, self))"

definition io_raise :: "error \<Rightarrow> 'a io" where
  "io_raise e = (\<lambda>self. (Inl e, self))"

definition io_bind :: "'a io \<Rightarrow> ('a \<Rightarrow> 'b io) \<Rightarrow> 'b io" where
  "io_bind m f =
     (\<lambda>self. case m self of
        (Inl e, self') \<Rightarrow> (Inl e, self')
      | (Inr x, self') \<Rightarrow> f x self')"

definition io_then :: "'a io \<Rightarrow> 'b io \<Rightarrow> 'b io" where
  "io_then m n = io_bind m (\<lambda>_. n)"

definition PRESCALE :: int where "PRESCALE = 121"

definition PULSE_START :: int where "PULSE_START = 100"

definition PULSE_END_LOW :: int where "PULSE_END_LOW = 305"

definition PULSE_END_HIGH :: int where "PULSE_END_HIGH = 509"

definition REGISTERS :: "string \<rightharpoonup> int" where
  "REGISTERS = map_of
     [(''mode1'', 0x00),
      (''mode2'', 0x01),
      (''subadr1'', 0x02),
      (''subadr2'', 0x03),
      (''subadr3'', 0x04),
      (''allcalladr'', 0x05),
      (''all_on_low'', 0xfa),
      (''all_on_high'', 0xfb),
      (''all_off_low'', 0xfc),
      (''all_off_high'', 0xfd),
      (''pre_scale'', 0xfe),
      (''testmode'', 0xff)]"

definition MODE1_BITS :: "string \<rightharpoonup> nat" where
  "MODE1_BITS = map_of
     [(''allcall'', 0),
      (''sub3'', 1),
      (''sub2'', 2),
      (''sub1'', 3),
      (''sleep'', 4),
      (''ai'', 5),
      (''extclk'', 6),
      (''restart'', 7)]"

definition MODE2_BITS :: "string \<rightharpoonup> nat" where
  "MODE2_BITS = map_of
     [(''oe0'', 0),
      (''oe1'', 1),
      (''outdrv'', 2),
      (''och'', 3),
      (''invrt'', 4)]"

text \<open>
  \<open>d.get(k)\<close> is \<open>None\<close> for a missing key, and \<open>None\<close> as a register or a bit
  offset raises TypeError as soon as it is used.
\<close>

definition dict_get :: "(string \<rightharpoonup> 'a) \<Rightarrow> string \<Rightarrow> 'a io" where
  "dict_get d k = (case d k of None \<Rightarrow> io_raise TypeError | Some v \<Rightarrow> io_return v)"

definition valid_servo :: "int \<Rightarrow> unit io" where
  "valid_servo servo_id =
     (if \<not> (servo_id \<ge> 0 \<and> servo_id \<le> 15)
      then io_raise (Exception ''servo_id must be in the range [0 .. 15]'')
      else io_return ())"

definition SERVO_ON_LOW :: "int \<Rightarrow> int io" where
  "SERVO_ON_LOW servo_id = io_then (valid_servo servo_id) (io_return (0x06 + 4 * servo_id))"

definition SERVO_ON_HIGH :: "int \<Rightarrow> int io" where
  "SERVO_ON_HIGH servo_id = io_then (valid_servo servo_id) (io_return (0x07 + 4 * servo_id))"

definition SERVO_OFF_LOW :: "int \<Rightarrow> int io" where
  "SERVO_OFF_LOW servo_id = io_then (valid_servo servo_id) (io_return (0x08 + 4 * servo_id))"

definition SERVO_OFF_HIGH :: "int \<Rightarrow> int io" where
  "SERVO_OFF_HIGH servo_id = io_then (valid_servo servo_id) (io_return (0x09 + 4 * servo_id))"

definition master_transaction :: "message list \<Rightarrow> int list list io" where
  "master_transaction msgs =
     (\<lambda>self. case run_messages (device self) msgs of
        (rs, c') \<Rightarrow> (Inr rs, self\<lparr>device := c', trace := trace self @ [transaction msgs]\<rparr>))"

definition time_sleep_io :: "nat \<Rightarrow> unit io" where
  "time_sleep_io ms = (\<lambda>self. (Inr (), self\<lparr>trace := trace self @ [time_sleep ms]\<rparr>))"

definition master_close_io :: "unit io" where
  "master_close_io = (\<lambda>self. (Inr (), self\<lparr>trace := trace self @ [master_close]\<rparr>))"

text \<open>
  The tick computed on line 165. Python evaluates the expression in double precision;
  the model evaluates it over the reals (lemma \<open>position_value_gap\<close> below is why the
  truncation cannot tell the two apart: the exact value is a whole number, which the
  doubles represent and compute exactly, or it is at least 4/1000 away from the next
  whole number on either side, far more than the rounding error of three double
  operations on values below 1024).
\<close>

definition position_value :: "int \<Rightarrow> int" where
  "position_value position =
     py_int (real_of_int (position - 1000) / real_of_int (2000 - 1000)
               * real_of_int (PULSE_END_HIGH - PULSE_END_LOW) + real_of_int PULSE_END_LOW)"

definition set_position :: "int \<Rightarrow> int \<Rightarrow> unit io" where
  "set_position servo_id position =
     io_then (valid_servo servo_id)
       (if \<not> (position > 0 \<and> position < 3000)
        then io_raise (Exception ''position must be in the range [0 .. 3000]'')
        else
          (let value = position_value position in
           io_bind (SERVO_OFF_LOW servo_id) (\<lambda>off_low.
           io_bind (SERVO_OFF_HIGH servo_id) (\<lambda>off_high.
           io_then
             (\<lambda>self. master_transaction
                [writing_bytes (ADDRESS self) [off_low, getByte value 0],
                 writing_bytes (ADDRESS self) [off_high, getByte value 1]] self)
             (io_return ())))))"

definition setRegister :: "int \<Rightarrow> int \<Rightarrow> unit io" where
  "setRegister register value =
     io_then
       (\<lambda>self. master_transaction
          [writing_bytes (ADDRESS self) [register, getByte value 0]] self)
       (io_return ())"

definition getRegister :: "int \<Rightarrow> int io" where
  "getRegister register =
     io_bind
       (\<lambda>self. master_transaction
          [writing_bytes (ADDRESS self) [register], reading (ADDRESS self) 1] self)
       (\<lambda>rs. case rs of
          (b # _) # _ \<Rightarrow> io_return b
        | _ \<Rightarrow> io_raise IndexError)"

definition PCA9685_getBit :: "int \<Rightarrow> nat \<Rightarrow> int io" where
  "PCA9685_getBit register bit_no =
     io_bind (getRegister register) (\<lambda>b. io_return (testBit b bit_no))"

definition PCA9685_setBit :: "int \<Rightarrow> nat \<Rightarrow> unit io" where
  "PCA9685_setBit register bit_no =
     io_bind (getRegister register) (\<lambda>b. setRegister register (setBit b bit_no))"

definition PCA9685_clearBit :: "int \<Rightarrow> nat \<Rightarrow> unit io" where
  "PCA9685_clearBit register bit_no =
     io_bind (getRegister register) (\<lambda>b. setRegister register (clearBit b bit_no))"

text \<open>
  The constructor. \<open>I2CMaster(controller)\<close> opens the bus on which the chip sits; the
  object starts with that chip and an empty trace.
\<close>

definition init_body :: "unit io" where
  "init_body =
     io_then (io_bind (dict_get REGISTERS ''pre_scale'') (\<lambda>r. setRegister r PRESCALE))
    (io_then (io_bind (dict_get REGISTERS ''mode1'') (\<lambda>r.
              io_bind (dict_get MODE1_BITS ''allcall'') (\<lambda>b. PCA9685_clearBit r b)))
    (io_then (io_bind (dict_get REGISTERS ''all_on_low'') (\<lambda>r.
              setRegister r (getByte PULSE_START 0)))
    (io_then (io_bind (dict_get REGISTERS ''all_on_high'') (\<lambda>r.
              setRegister r (getByte PULSE_START 1)))
    (let center = py_int (real_of_int (PULSE_END_HIGH + PULSE_END_LOW) / 2) in
     io_then (io_bind (dict_get REGISTERS ''all_off_low'') (\<lambda>r.
              setRegister r (getByte center 0)))
    (io_then (io_bind (dict_get REGISTERS ''all_off_high'') (\<lambda>r.
              setRegister r (getByte center 1)))
    (io_then (io_bind (dict_get REGISTERS ''mode1'') (\<lambda>r.
              io_bind (dict_get MODE1_BITS ''sleep'') (\<lambda>b. PCA9685_clearBit r b)))
    (io_then (time_sleep_io 100)
    (io_then (io_bind (dict_get REGISTERS ''mode1'') (\<lambda>r.
              io_bind (dict_get MODE1_BITS ''restart'') (\<lambda>b. PCA9685_setBit r b)))
             (time_sleep_io 100)))))))))"

definition init :: "chip \<Rightarrow> int \<Rightarrow> (error + unit) \<times> PCA9685" where
  "init controller address =
     init_body \<lparr>ADDRESS = address, device = controller, trace = []\<rparr>"

text \<open>The destructor \<open>__del__\<close>.\<close>

definition del :: "unit io" where
  "del =
     io_then (io_bind (dict_get REGISTERS ''mode1'') (\<lambda>r.
              io_bind (dict_get MODE1_BITS ''sleep'') (\<lambda>b. PCA9685_setBit r b)))
             master_close_io"

section \<open>Observations used by the properties\<close>

text \<open>The events a method call appends to the trace.\<close>

definition emitted :: "'a io \<Rightarrow> PCA9685 \<Rightarrow> event list" where
  "emitted m self = drop (length (trace self)) (trace (snd (m self)))"

text \<open>
  The formula of the specification for the tick, with rounding to the nearest whole
  number, kept apart from \<open>position_value\<close> to compare the two.
\<close>

definition spec_tick :: "int \<Rightarrow> int" where
  "spec_tick position =
     round (real_of_int PULSE_END_LOW
            + real_of_int (position - 1000) / 1000
              * real_of_int (PULSE_END_HIGH - PULSE_END_LOW))"

text \<open>
  A concrete chip and driver object for evaluating the methods: \<open>mode1\<close> holds 0x11
  (sleep and allcall set), every other register 0, and the driver uses address 0x40.
\<close>

definition example_chip :: chip where
  "example_chip = \<lparr>registers = (\<lambda>r. if r = 0 then 0x11 else 0), control = 0\<rparr>"

definition example_driver :: PCA9685 where
  "example_driver = \<lparr>ADDRESS = 0x40, device = example_chip, trace = []\<rparr>"

section \<open>Basic facts\<close>

lemma io_simps:
  "io_bind (io_return x) f = f x"
  "io_bind (io_raise e) f = io_raise e"
  "io_then (io_return x) n = n"
  "io_then (io_raise e) n = io_raise e"
  by (simp_all add: io_bind_def io_then_def io_return_def io_raise_def fun_eq_iff)

subsection \<open>Bytes and bits\<close>

lemma getByte_div: "getByte v n = (v div 2 ^ (8 * n)) mod 256"
  unfolding getByte_def
  using take_bit_eq_mask [of 8 "drop_bit (8 * n) v"]
  by (simp add: drop_bit_eq_div take_bit_eq_mod mask_eq_exp_minus_1)

lemma getByte_take_bit: "getByte v n = take_bit 8 (drop_bit (8 * n) v)"
  by (simp add: getByte_def take_bit_eq_mask mask_eq_exp_minus_1)

lemma uint_getByte: "uint (word_of_int (getByte v n) :: 8 word) = getByte v n"
  by (simp add: getByte_take_bit uint_word_of_int_eq)

lemma getByte_0_id: "0 \<le> b \<Longrightarrow> b < 256 \<Longrightarrow> getByte b 0 = b"
  by (simp add: getByte_div)

lemma uint_word_of_byte: "0 \<le> b \<Longrightarrow> b < 256 \<Longrightarrow> uint (word_of_int b :: 8 word) = b"
  by (simp add: uint_word_of_int_eq take_bit_eq_mod)

lemma uint_byte: "0 \<le> uint (w :: 8 word)" "uint (w :: 8 word) < 256"
  using uint_bounded [of w] by simp_all

lemma bit_setBit: "bit (setBit v n) k = (bit v k \<or> k = n)"
  by (auto simp add: setBit_def bit_simps)

lemma bit_clearBit: "bit (clearBit v n) k = (bit v k \<and> k \<noteq> n)"
  by (auto simp add: clearBit_def bit_simps)

lemma truthy_testBit: "truthy (testBit v n) = bit v n"
  by (simp add: truthy_def testBit_def and_exp_eq_0_iff_not_bit)

lemma clearBit_byte:
  assumes "0 \<le> b" "b < 256"
  shows "0 \<le> clearBit b n" "clearBit b n < 256"
proof -
  show "0 \<le> clearBit b n"
    using assms by (simp add: clearBit_def)
  have "clearBit b n \<le> b"
    using assms by (simp add: clearBit_def AND_upper1)
  then show "clearBit b n < 256"
    using assms by simp
qed

lemma setBit_byte:
  assumes "0 \<le> b" "b < 256" "n < 8"
  shows "0 \<le> setBit b n" "setBit b n < 256"
proof -
  show "0 \<le> setBit b n"
    using assms by (simp add: setBit_def)
  have "(2::int) ^ n < 2 ^ 8"
    using assms by (intro power_strict_increasing) simp_all
  with assms have "b OR 2 ^ n < 2 ^ 8"
    by (intro OR_upper) simp_all
  then show "setBit b n < 256"
    by (simp add: setBit_def)
qed

subsection \<open>The tick\<close>

lemma position_value_closed:
  "position_value p =
     (if 204 * p + 101000 < 0 then - ((- (204 * p + 101000)) div 1000)
      else (204 * p + 101000) div 1000)"
proof -
  have e: "real_of_int (p - 1000) / real_of_int (2000 - 1000)
             * real_of_int (PULSE_END_HIGH - PULSE_END_LOW) + real_of_int PULSE_END_LOW
           = real_of_int (204 * p + 101000) / real_of_int 1000"
    by (simp add: PULSE_END_HIGH_def PULSE_END_LOW_def field_simps)
  show ?thesis
    unfolding position_value_def e py_int_def
    by (simp only: floor_divide_of_int_eq ceiling_divide_eq_div of_int_less_0_iff
          divide_less_0_iff) simp
qed

lemma position_value_div:
  assumes "0 < p" "p < 3000"
  shows "position_value p = (204 * p + 101000) div 1000"
  using assms by (simp add: position_value_closed)

lemma position_value_gap:
  "(204 * (p::int) + 101000) mod 1000 = 0
   \<or> (4 \<le> (204 * p + 101000) mod 1000 \<and> (204 * p + 101000) mod 1000 \<le> 996)"
proof -
  define k where "k = (51 * p + 25250) mod 250"
  have "4 * k = (4 * (51 * p + 25250)) mod (4 * 250)"
    unfolding k_def by (rule mult_mod_right)
  then have e: "(204 * p + 101000) mod 1000 = 4 * k"
    by (simp add: algebra_simps)
  have "0 \<le> k" "k < 250"
    by (simp_all add: k_def)
  then show ?thesis
    unfolding e by arith
qed

lemma center_value: "py_int (real_of_int (PULSE_END_HIGH + PULSE_END_LOW) / 2) = 407"
  by (simp add: py_int_def PULSE_END_HIGH_def PULSE_END_LOW_def)

lemma getByte_constants:
  "getByte 407 0 = 151" "getByte 407 1 = 1" "getByte 100 0 = 100" "getByte 100 1 = 0"
  "getByte 121 0 = 121"
  by (simp_all add: getByte_div)

subsection \<open>Bytes of a value and bounds of the tick\<close>

lemma getByte_roundtrip:
  "getByte v 0 + push_bit 8 (getByte v 1) + push_bit 16 (getByte v 2)
     + push_bit 24 (getByte v 3) = v mod 2 ^ 32"
proof -
  have "v mod (256 * 16777216) = 256 * (v div 256 mod 16777216) + v mod 256"
    by (rule zmod_zmult2_eq) simp
  then have a: "v mod 4294967296 = 256 * (v div 256 mod 16777216) + v mod 256"
    by (simp only: numeral_times_numeral mult_num_simps arith_simps)
  have "v div (256 * 256) = v div 256 div 256"
    by (rule zdiv_zmult2_eq) simp
  then have d2: "v div 256 div 256 = v div 65536"
    by (simp only: numeral_times_numeral mult_num_simps arith_simps)
  have "v div (65536 * 256) = v div 65536 div 256"
    by (rule zdiv_zmult2_eq) simp
  then have d3: "v div 65536 div 256 = v div 16777216"
    by (simp only: numeral_times_numeral mult_num_simps arith_simps)
  have "(v div 256) mod (256 * 65536) = 256 * (v div 256 div 256 mod 65536) + v div 256 mod 256"
    by (rule zmod_zmult2_eq) simp
  then have b: "v div 256 mod 16777216 = 256 * (v div 65536 mod 65536) + v div 256 mod 256"
    by (simp only: numeral_times_numeral mult_num_simps arith_simps d2)
  have "(v div 65536) mod (256 * 256)
             = 256 * (v div 65536 div 256 mod 256) + v div 65536 mod 256"
    by (rule zmod_zmult2_eq) simp
  then have c: "v div 65536 mod 65536 = 256 * (v div 16777216 mod 256) + v div 65536 mod 256"
    by (simp only: numeral_times_numeral mult_num_simps arith_simps d3)
  have e: "v mod 4294967296
          = v mod 256 + 256 * (v div 256 mod 256) + 65536 * (v div 65536 mod 256)
            + 16777216 * (v div 16777216 mod 256)"
    unfolding a b c by (simp only: distrib_left mult.assoc [symmetric])
  have g: "getByte v 0 = v mod 256" "getByte v 1 = v div 256 mod 256"
    "getByte v 2 = v div 65536 mod 256" "getByte v 3 = v div 16777216 mod 256"
    by (simp_all add: getByte_div)
  have p: "v mod 2 ^ 32 = v mod 4294967296"
    by simp
  show ?thesis
    unfolding g p e push_bit_eq_mult by simp
qed

lemma mask32: "(v::int) AND 0xFFFFFFFF = v mod 2 ^ 32"
  using take_bit_eq_mask [of 32 v] by (simp add: take_bit_eq_mod mask_eq_exp_minus_1)

lemma small_and_240:
  assumes "0 \<le> (x::int)" "x \<le> 2"
  shows "x AND 240 = 0"
proof -
  from assms have "x = 0 \<or> x = 1 \<or> x = 2"
    by arith
  then show ?thesis
    by auto
qed

lemma spec_tick_1003: "spec_tick 1003 = 306"
  by (simp add: spec_tick_def PULSE_END_HIGH_def PULSE_END_LOW_def round_def)

lemma tick_bounds:
  assumes "0 < p" "p < 3000"
  shows "101 \<le> position_value p" "position_value p \<le> 712"
proof -
  have "101204 div 1000 \<le> (204 * p + 101000) div 1000"
    using assms by (intro zdiv_mono1) simp_all
  then show "101 \<le> position_value p"
    using assms by (simp add: position_value_div)
  have "(204 * p + 101000) div 1000 \<le> 712796 div 1000"
    using assms by (intro zdiv_mono1) simp_all
  then show "position_value p \<le> 712"
    using assms by (simp add: position_value_div)
qed

lemma position_value_floor:
  assumes "0 < p" "p < 3000"
  shows "position_value p =
     \<lfloor>real_of_int PULSE_END_LOW
        + real_of_int (p - 1000) / 1000 * real_of_int (PULSE_END_HIGH - PULSE_END_LOW)\<rfloor>"
proof -
  have "real_of_int PULSE_END_LOW
          + real_of_int (p - 1000) / 1000 * real_of_int (PULSE_END_HIGH - PULSE_END_LOW)
        = real_of_int (204 * p + 101000) / real_of_int 1000"
    by (simp add: PULSE_END_HIGH_def PULSE_END_LOW_def field_simps)
  then show ?thesis
    using assms by (simp only: floor_divide_of_int_eq position_value_div)
qed

lemma high_byte_small:
  assumes "0 \<le> v" "v \<le> 712"
  shows "getByte v 1 = v div 256" "0 \<le> v div 256" "v div 256 \<le> 2"
proof -
  show "0 \<le> v div 256"
    using assms by simp
  have "v div 256 \<le> 712 div 256"
    using assms by (intro zdiv_mono1) simp_all
  then show "v div 256 \<le> 2"
    by simp
  with \<open>0 \<le> v div 256\<close> show "getByte v 1 = v div 256"
    by (simp add: getByte_div)
qed

lemma two_bytes:
  assumes "0 \<le> v" "v \<le> 712"
  shows "getByte v 0 + 256 * getByte v 1 = v"
  using assms by (simp add: high_byte_small(1) getByte_div)

subsection \<open>What each method does to the object\<close>

lemma emitted_run:
  "m self = (r, self') \<Longrightarrow> trace self' = trace self @ es \<Longrightarrow> emitted m self = es"
  by (simp add: emitted_def)

lemma dict_simps:
  "dict_get REGISTERS ''pre_scale'' = io_return 0xfe"
  "dict_get REGISTERS ''mode1'' = io_return 0"
  "dict_get REGISTERS ''all_on_low'' = io_return 0xfa"
  "dict_get REGISTERS ''all_on_high'' = io_return 0xfb"
  "dict_get REGISTERS ''all_off_low'' = io_return 0xfc"
  "dict_get REGISTERS ''all_off_high'' = io_return 0xfd"
  "dict_get MODE1_BITS ''allcall'' = io_return 0"
  "dict_get MODE1_BITS ''sleep'' = io_return 4"
  "dict_get MODE1_BITS ''restart'' = io_return 7"
  by (simp_all add: dict_get_def REGISTERS_def MODE1_BITS_def)

lemma valid_servo_run:
  "valid_servo c self =
     (if 0 \<le> c \<and> c \<le> 15 then (Inr (), self)
      else (Inl (Exception ''servo_id must be in the range [0 .. 15]''), self))"
  by (simp add: valid_servo_def io_return_def io_raise_def)

lemma setRegister_run:
  "setRegister r v self =
     (Inr (),
      self\<lparr>device := (device self)
              \<lparr>registers := (registers (device self))(r := word_of_int (getByte v 0)),
               control := r\<rparr>,
           trace := trace self
              @ [transaction [writing_bytes (ADDRESS self) [r, getByte v 0]]]\<rparr>)"
  by (simp add: setRegister_def master_transaction_def chip_write_def io_then_def
        io_bind_def io_return_def)

lemma getRegister_run:
  "getRegister r self =
     (Inr (uint (registers (device self) r)),
      self\<lparr>device := (device self)\<lparr>control := r\<rparr>,
           trace := trace self
              @ [transaction [writing_bytes (ADDRESS self) [r], reading (ADDRESS self) 1]]\<rparr>)"
  by (simp add: getRegister_def master_transaction_def chip_write_def chip_read_def
        io_bind_def io_return_def)

lemma PCA9685_setBit_run:
  "PCA9685_setBit r n self =
     (Inr (),
      self\<lparr>device := (device self)
              \<lparr>registers := (registers (device self))
                 (r := word_of_int (getByte (setBit (uint (registers (device self) r)) n) 0)),
               control := r\<rparr>,
           trace := trace self
              @ [transaction [writing_bytes (ADDRESS self) [r], reading (ADDRESS self) 1],
                 transaction [writing_bytes (ADDRESS self)
                    [r, getByte (setBit (uint (registers (device self) r)) n) 0]]]\<rparr>)"
  by (simp add: PCA9685_setBit_def io_bind_def getRegister_run setRegister_run)

lemma PCA9685_clearBit_run:
  "PCA9685_clearBit r n self =
     (Inr (),
      self\<lparr>device := (device self)
              \<lparr>registers := (registers (device self))
                 (r := word_of_int (getByte (clearBit (uint (registers (device self) r)) n) 0)),
               control := r\<rparr>,
           trace := trace self
              @ [transaction [writing_bytes (ADDRESS self) [r], reading (ADDRESS self) 1],
                 transaction [writing_bytes (ADDRESS self)
                    [r, getByte (clearBit (uint (registers (device self) r)) n) 0]]]\<rparr>)"
  by (simp add: PCA9685_clearBit_def io_bind_def getRegister_run setRegister_run)

lemma time_sleep_run:
  "time_sleep_io ms self = (Inr (), self\<lparr>trace := trace self @ [time_sleep ms]\<rparr>)"
  by (simp add: time_sleep_io_def)

lemma set_position_run:
  assumes "0 \<le> c" "c \<le> 15" "0 < p" "p < 3000"
  shows "set_position c p self =
     (Inr (),
      self\<lparr>device := (device self)
              \<lparr>registers := (registers (device self))
                 (8 + 4 * c := word_of_int (getByte (position_value p) 0),
                  9 + 4 * c := word_of_int (getByte (position_value p) 1)),
               control := 9 + 4 * c\<rparr>,
           trace := trace self
              @ [transaction
                   [writing_bytes (ADDRESS self) [8 + 4 * c, getByte (position_value p) 0],
                    writing_bytes (ADDRESS self) [9 + 4 * c, getByte (position_value p) 1]]]\<rparr>)"
  using assms
  by (simp add: set_position_def SERVO_OFF_LOW_def SERVO_OFF_HIGH_def valid_servo_run
        master_transaction_def chip_write_def io_then_def io_bind_def io_return_def Let_def)

lemma set_position_bad_channel:
  assumes "\<not> (0 \<le> c \<and> c \<le> 15)"
  shows "set_position c p self =
           (Inl (Exception ''servo_id must be in the range [0 .. 15]''), self)"
proof -
  have "valid_servo c self =
          (Inl (Exception ''servo_id must be in the range [0 .. 15]''), self)"
    using assms by (auto simp add: valid_servo_run)
  then show ?thesis
    by (simp add: set_position_def io_then_def io_bind_def)
qed

lemma set_position_bad_position:
  assumes "0 \<le> c" "c \<le> 15" "\<not> (0 < p \<and> p < 3000)"
  shows "set_position c p self =
           (Inl (Exception ''position must be in the range [0 .. 3000]''), self)"
proof -
  have v: "valid_servo c self = (Inr (), self)"
    using assms by (simp add: valid_servo_run)
  have "\<not> (p > 0 \<and> p < 3000)"
    using assms by simp
  then have "set_position c p =
          io_then (valid_servo c)
            (io_raise (Exception ''position must be in the range [0 .. 3000]''))"
    unfolding set_position_def by (simp only: not_False_eq_True if_True)
  then show ?thesis
    using v by (simp add: io_then_def io_bind_def io_raise_def)
qed

lemma init_run:
  "init controller address =
     (Inr (),
      \<lparr>ADDRESS = address,
       device = controller
         \<lparr>registers := (registers controller)
            (0xfe := 121, 0xfa := 100, 0xfb := 0, 0xfc := 151, 0xfd := 1,
             0 := word_of_int
                    (setBit (clearBit (clearBit (uint (registers controller 0)) 0) 4) 7)),
          control := 0\<rparr>,
       trace =
         [transaction [writing_bytes address [0xfe, 121]],
          transaction [writing_bytes address [0x00], reading address 1],
          transaction [writing_bytes address [0x00, clearBit (uint (registers controller 0)) 0]],
          transaction [writing_bytes address [0xfa, 100]],
          transaction [writing_bytes address [0xfb, 0]],
          transaction [writing_bytes address [0xfc, 151]],
          transaction [writing_bytes address [0xfd, 1]],
          transaction [writing_bytes address [0x00], reading address 1],
          transaction [writing_bytes address
             [0x00, clearBit (clearBit (uint (registers controller 0)) 0) 4]],
          time_sleep 100,
          transaction [writing_bytes address [0x00], reading address 1],
          transaction [writing_bytes address
             [0x00, setBit (clearBit (clearBit (uint (registers controller 0)) 0) 4) 7]],
          time_sleep 100]\<rparr>)"
  unfolding init_def init_body_def dict_simps io_simps center_value Let_def PRESCALE_def
    PULSE_START_def getByte_constants
  by (simp add: io_then_def io_bind_def setRegister_run PCA9685_clearBit_run
        PCA9685_setBit_run time_sleep_run getByte_constants uint_word_of_byte getByte_0_id
        clearBit_byte setBit_byte uint_byte)

lemma del_run:
  "del self =
     (Inr (),
      self\<lparr>device := (device self)
              \<lparr>registers := (registers (device self))
                 (0 := word_of_int (setBit (uint (registers (device self) 0)) 4)),
               control := 0\<rparr>,
           trace := trace self
              @ [transaction [writing_bytes (ADDRESS self) [0], reading (ADDRESS self) 1],
                 transaction [writing_bytes (ADDRESS self)
                    [0, setBit (uint (registers (device self) 0)) 4]],
                 master_close]\<rparr>)"
  unfolding del_def dict_simps io_simps
  by (simp add: io_then_def io_bind_def PCA9685_setBit_run master_close_io_def getByte_0_id
        setBit_byte uint_byte)

section \<open>Properties of the helpers\<close>

text \<open>
  C7: for every \<open>v\<close> in [0, 2^32) and every \<open>n\<close> in {0,1,2,3}, \<open>getByte v n\<close> is
  \<open>(v >> 8n) & 0xFF\<close>, and the four bytes shifted back into place add up to
  \<open>v & 0xFFFFFFFF\<close> (which is \<open>v\<close> itself on that range).
\<close>

theorem getByte_bytes_roundtrip:
  assumes "0 \<le> v" "v < 2 ^ 32" "n \<in> {0, 1, 2, 3}"
  shows "getByte v n = drop_bit (8 * n) v AND 0xFF
       \<and> getByte v n = v div 2 ^ (8 * n) mod 256
       \<and> getByte v 0 + push_bit 8 (getByte v 1) + push_bit 16 (getByte v 2)
           + push_bit 24 (getByte v 3) = v AND 0xFFFFFFFF
       \<and> v AND 0xFFFFFFFF = v"
proof -
  have "v mod 2 ^ 32 = v"
    using assms by simp
  then show ?thesis
    by (simp only: getByte_roundtrip mask32 getByte_div [symmetric]) (simp add: getByte_def)
qed

theorem getByte_bytes_roundtrip_witness:
  "(0::int) \<le> 0x12345678 \<and> (0x12345678::int) < 2 ^ 32
   \<and> getByte 0x12345678 2 = 0x34
   \<and> getByte 0x12345678 0 + push_bit 8 (getByte 0x12345678 1)
       + push_bit 16 (getByte 0x12345678 2) + push_bit 24 (getByte 0x12345678 3)
     = 0x12345678"
  using getByte_bytes_roundtrip [of "0x12345678" 2]
  by (simp add: getByte_div)

text \<open>
  C8: for every non-negative \<open>v\<close> and every offset in [0,7], the bit tests true after
  \<open>setBit\<close> and false after \<open>clearBit\<close>, and both leave every other bit of \<open>v\<close> as
  it was.
\<close>

theorem setBit_clearBit_testBit:
  assumes "0 \<le> v" "off \<le> 7"
  shows "truthy (testBit (setBit v off) off)
       \<and> \<not> truthy (testBit (clearBit v off) off)
       \<and> (\<forall>k. k \<noteq> off \<longrightarrow>
             bit (setBit v off) k = bit v k \<and> bit (clearBit v off) k = bit v k)"
  by (simp add: truthy_testBit bit_setBit bit_clearBit)

theorem setBit_clearBit_testBit_witness:
  "(0::int) \<le> 0x51 \<and> (3::nat) \<le> 7
   \<and> setBit 0x51 3 = 0x59 \<and> clearBit 0x51 4 = 0x41
   \<and> testBit (setBit 0x51 3) 3 = 8 \<and> testBit (clearBit 0x51 3) 3 = 0
   \<and> truthy (testBit (setBit 0x51 3) 3) \<and> \<not> truthy (testBit (clearBit 0x51 3) 3)"
  using setBit_clearBit_testBit [of "0x51" 3]
  by (simp add: setBit_def clearBit_def testBit_def truthy_def)

section \<open>Validation and channel addressing\<close>

text \<open>
  C3: \<open>set_position\<close> with a channel outside [0,15] raises the servo_id exception
  (InvalidChannel in the specification); with a valid channel and a position not
  strictly between 0 and 3000 it raises the position exception (InvalidPosition). In both
  cases the object, its chip and its trace are exactly as before: nothing was sent.
\<close>

theorem set_position_rejects:
  "(\<not> (0 \<le> c \<and> c \<le> 15) \<longrightarrow>
      set_position c p self
        = (Inl (Exception ''servo_id must be in the range [0 .. 15]''), self)
      \<and> emitted (set_position c p) self = [])
   \<and> (0 \<le> c \<and> c \<le> 15 \<and> \<not> (0 < p \<and> p < 3000) \<longrightarrow>
      set_position c p self
        = (Inl (Exception ''position must be in the range [0 .. 3000]''), self)
      \<and> emitted (set_position c p) self = [])"
proof (intro conjI impI)
  assume a: "\<not> (0 \<le> c \<and> c \<le> 15)"
  show "set_position c p self
          = (Inl (Exception ''servo_id must be in the range [0 .. 15]''), self)"
    by (rule set_position_bad_channel [OF a])
  then show "emitted (set_position c p) self = []"
    by (simp add: emitted_def)
next
  assume a: "0 \<le> c \<and> c \<le> 15 \<and> \<not> (0 < p \<and> p < 3000)"
  show "set_position c p self
          = (Inl (Exception ''position must be in the range [0 .. 3000]''), self)"
    using a by (intro set_position_bad_position) simp_all
  then show "emitted (set_position c p) self = []"
    by (simp add: emitted_def)
qed

theorem set_position_rejects_witness:
  "set_position 16 1500 example_driver
     = (Inl (Exception ''servo_id must be in the range [0 .. 15]''), example_driver)
   \<and> set_position (- 1) 0 example_driver
     = (Inl (Exception ''servo_id must be in the range [0 .. 15]''), example_driver)
   \<and> set_position 0 3000 example_driver
     = (Inl (Exception ''position must be in the range [0 .. 3000]''), example_driver)
   \<and> set_position 15 0 example_driver
     = (Inl (Exception ''position must be in the range [0 .. 3000]''), example_driver)
   \<and> emitted (set_position 0 3000) example_driver = []"
  using set_position_rejects [of 16 1500 example_driver]
    set_position_rejects [of "- 1" 0 example_driver]
    set_position_rejects [of 0 3000 example_driver]
    set_position_rejects [of 15 0 example_driver]
  by simp

text \<open>
  C4: for a channel \<open>c\<close> in [0,15] the four register functions return 0x06, 0x07, 0x08
  and 0x09 plus \<open>4 * c\<close>, so each grows by 4 from one channel to the next; for a channel
  outside [0,15] each raises the servo_id exception. None of them touches the bus.
\<close>

theorem SERVO_registers:
  "(0 \<le> c \<and> c \<le> 15 \<longrightarrow>
      SERVO_ON_LOW c self = (Inr (0x06 + 4 * c), self)
      \<and> SERVO_ON_HIGH c self = (Inr (0x07 + 4 * c), self)
      \<and> SERVO_OFF_LOW c self = (Inr (0x08 + 4 * c), self)
      \<and> SERVO_OFF_HIGH c self = (Inr (0x09 + 4 * c), self))
   \<and> (0 \<le> c \<and> c + 1 \<le> 15 \<longrightarrow>
      (\<exists>a b. fst (SERVO_ON_LOW c self) = Inr a \<and> fst (SERVO_ON_LOW (c + 1) self) = Inr b
             \<and> b = a + 4)
      \<and> (\<exists>a b. fst (SERVO_ON_HIGH c self) = Inr a \<and> fst (SERVO_ON_HIGH (c + 1) self) = Inr b
             \<and> b = a + 4)
      \<and> (\<exists>a b. fst (SERVO_OFF_LOW c self) = Inr a \<and> fst (SERVO_OFF_LOW (c + 1) self) = Inr b
             \<and> b = a + 4)
      \<and> (\<exists>a b. fst (SERVO_OFF_HIGH c self) = Inr a
             \<and> fst (SERVO_OFF_HIGH (c + 1) self) = Inr b \<and> b = a + 4))
   \<and> (\<not> (0 \<le> c \<and> c \<le> 15) \<longrightarrow>
      SERVO_ON_LOW c self
        = (Inl (Exception ''servo_id must be in the range [0 .. 15]''), self)
      \<and> SERVO_ON_HIGH c self
        = (Inl (Exception ''servo_id must be in the range [0 .. 15]''), self)
      \<and> SERVO_OFF_LOW c self
        = (Inl (Exception ''servo_id must be in the range [0 .. 15]''), self)
      \<and> SERVO_OFF_HIGH c self
        = (Inl (Exception ''servo_id must be in the range [0 .. 15]''), self)
      \<and> emitted (SERVO_ON_LOW c) self = [] \<and> emitted (SERVO_ON_HIGH c) self = []
      \<and> emitted (SERVO_OFF_LOW c) self = [] \<and> emitted (SERVO_OFF_HIGH c) self = [])"
  by (auto simp add: SERVO_ON_LOW_def SERVO_ON_HIGH_def SERVO_OFF_LOW_def SERVO_OFF_HIGH_def
        valid_servo_run io_then_def io_bind_def io_return_def emitted_def)

theorem SERVO_registers_witness:
  "SERVO_ON_LOW 0 example_driver = (Inr 0x06, example_driver)
   \<and> SERVO_ON_HIGH 1 example_driver = (Inr 0x0b, example_driver)
   \<and> SERVO_OFF_LOW 15 example_driver = (Inr 0x44, example_driver)
   \<and> SERVO_OFF_HIGH 15 example_driver = (Inr 0x45, example_driver)
   \<and> SERVO_OFF_LOW 16 example_driver
       = (Inl (Exception ''servo_id must be in the range [0 .. 15]''), example_driver)
   \<and> SERVO_ON_LOW (- 1) example_driver
       = (Inl (Exception ''servo_id must be in the range [0 .. 15]''), example_driver)"
  using SERVO_registers [of 0 example_driver] SERVO_registers [of 1 example_driver]
    SERVO_registers [of 15 example_driver] SERVO_registers [of 16 example_driver]
    SERVO_registers [of "- 1" example_driver]
  by simp

section \<open>The tick of a position\<close>

text \<open>
  C1, as the specification states it: the tick is the linear map rounded to the nearest
  whole number. At position 1003 the exact value is 305.612: the specification's formula
  gives 306, while \<open>int(...)\<close> in \<open>set_position\<close> truncates to 305, and the low byte
  sent to the chip is 49 (0x131 = 305), not 50.
\<close>

theorem set_position_round_counterexample:
  "position_value 1003 \<noteq> spec_tick 1003
   \<and> position_value 1003 = 305 \<and> spec_tick 1003 = 306
   \<and> emitted (set_position 0 1003) example_driver
       = [transaction [writing_bytes 0x40 [0x08, 49], writing_bytes 0x40 [0x09, 1]]]
   \<and> getByte (spec_tick 1003) 0 = 50"
proof -
  have v: "position_value 1003 = 305"
    by (simp add: position_value_closed)
  have "emitted (set_position 0 1003) example_driver
       = [transaction [writing_bytes 0x40 [0x08, 49], writing_bytes 0x40 [0x09, 1]]]"
    by (simp add: emitted_def set_position_run v example_driver_def getByte_div)
  then show ?thesis
    by (simp add: v spec_tick_1003 getByte_div)
qed

text \<open>
  C1, amended: for every channel in [0,15] and every position with 0 < position < 3000,
  \<open>set_position\<close> sends the low and the high byte of the tick
  \<open>floor (305 + (position - 1000) / 1000 * (509 - 305))\<close>: the linear map truncated, not
  rounded. The two bytes determine the tick. Position 1000 gives 305, 2000 gives 509,
  1500 gives 407, and positions outside [1000,2000] are extrapolated without clamping
  (1 gives 101, 2999 gives 712).
\<close>

theorem set_position_tick:
  assumes "0 \<le> c" "c \<le> 15" "0 < p" "p < 3000"
  shows "fst (set_position c p self) = Inr ()
       \<and> emitted (set_position c p) self
           = [transaction
                [writing_bytes (ADDRESS self) [0x08 + 4 * c, getByte (position_value p) 0],
                 writing_bytes (ADDRESS self) [0x09 + 4 * c, getByte (position_value p) 1]]]
       \<and> getByte (position_value p) 0 + 256 * getByte (position_value p) 1
           = position_value p
       \<and> position_value p
           = \<lfloor>real_of_int PULSE_END_LOW
               + real_of_int (p - 1000) / 1000
                 * real_of_int (PULSE_END_HIGH - PULSE_END_LOW)\<rfloor>
       \<and> PULSE_END_LOW = 305 \<and> PULSE_END_HIGH = 509
       \<and> position_value 1000 = 305 \<and> position_value 2000 = 509
       \<and> position_value 1500 = 407
       \<and> position_value 1 = 101 \<and> position_value 2999 = 712"
proof -
  have r: "fst (set_position c p self) = Inr ()"
    using assms by (simp add: set_position_run)
  have e: "emitted (set_position c p) self
           = [transaction
                [writing_bytes (ADDRESS self) [0x08 + 4 * c, getByte (position_value p) 0],
                 writing_bytes (ADDRESS self) [0x09 + 4 * c, getByte (position_value p) 1]]]"
    using assms by (simp add: emitted_def set_position_run)
  have b: "getByte (position_value p) 0 + 256 * getByte (position_value p) 1
           = position_value p"
    using tick_bounds [OF assms(3,4)] by (intro two_bytes) simp_all
  have k: "position_value 1000 = 305" "position_value 2000 = 509"
    "position_value 1500 = 407" "position_value 1 = 101" "position_value 2999 = 712"
    by (simp_all add: position_value_closed)
  show ?thesis
    using r e b k position_value_floor [OF assms(3,4)]
    by (simp only: PULSE_END_LOW_def PULSE_END_HIGH_def simp_thms)
qed

theorem set_position_tick_witness:
  "emitted (set_position 3 1250) example_driver
     = [transaction [writing_bytes 0x40 [20, 100], writing_bytes 0x40 [21, 1]]]
   \<and> position_value 1250 = 356
   \<and> fst (set_position 3 1250 example_driver) = Inr ()"
  using set_position_tick [of 3 1250 example_driver]
  by (simp add: position_value_closed example_driver_def getByte_div)

text \<open>
  C10: for every position with 0 < position < 3000 the tick that \<open>set_position\<close> computes
  lies in [101, 712], so it fits in 12 bits and the byte written to the off_high register
  has its upper four bits zero.
\<close>

theorem set_position_tick_12_bits:
  assumes "0 \<le> c" "c \<le> 15" "0 < p" "p < 3000"
  shows "101 \<le> position_value p \<and> position_value p \<le> 712
       \<and> position_value p \<le> 4095
       \<and> getByte (position_value p) 1 AND 0xF0 = 0
       \<and> emitted (set_position c p) self
           = [transaction
                [writing_bytes (ADDRESS self) [0x08 + 4 * c, getByte (position_value p) 0],
                 writing_bytes (ADDRESS self) [0x09 + 4 * c, getByte (position_value p) 1]]]
       \<and> uint (registers (device (snd (set_position c p self))) (0x09 + 4 * c)) AND 0xF0 = 0"
proof -
  note t = tick_bounds [OF assms(3,4)]
  have nn: "0 \<le> position_value p"
    using t by simp
  note h = high_byte_small [OF nn t(2)]
  have z: "getByte (position_value p) 1 AND 0xF0 = 0"
    using h by (simp add: small_and_240)
  have e: "emitted (set_position c p) self
           = [transaction
                [writing_bytes (ADDRESS self) [0x08 + 4 * c, getByte (position_value p) 0],
                 writing_bytes (ADDRESS self) [0x09 + 4 * c, getByte (position_value p) 1]]]"
    using assms by (simp add: emitted_def set_position_run)
  have "registers (device (snd (set_position c p self))) (0x09 + 4 * c)
          = word_of_int (getByte (position_value p) 1)"
    using assms by (simp add: set_position_run)
  then have u: "uint (registers (device (snd (set_position c p self))) (0x09 + 4 * c))
          = getByte (position_value p) 1"
    by (simp only: uint_getByte)
  show ?thesis
    using t z e by (simp add: u)
qed

theorem set_position_tick_12_bits_witness:
  "position_value 1 = 101 \<and> position_value 2999 = 712
   \<and> getByte (position_value 2999) 1 = 2
   \<and> emitted (set_position 15 2999) example_driver
       = [transaction [writing_bytes 0x40 [0x44, 200], writing_bytes 0x40 [0x45, 2]]]"
  using set_position_tick_12_bits [of 15 2999 example_driver]
    set_position_tick_12_bits [of 0 1 example_driver]
  by (simp add: position_value_closed example_driver_def getByte_div)

section \<open>What a position command writes\<close>

text \<open>
  C5, as the specification states it: the two bytes go out as two separate write
  transactions. On the example driver, channel 0 at position 1500, \<open>set_position\<close>
  appends one event to the trace: a single \<open>transaction\<close> call of the master carrying
  both write messages, not two transactions of one message each.
\<close>

theorem set_position_transactions_counterexample:
  "emitted (set_position 0 1500) example_driver
     \<noteq> [transaction [writing_bytes 0x40 [0x08, 151]],
         transaction [writing_bytes 0x40 [0x09, 1]]]
   \<and> emitted (set_position 0 1500) example_driver
     = [transaction [writing_bytes 0x40 [0x08, 151], writing_bytes 0x40 [0x09, 1]]]
   \<and> length (emitted (set_position 0 1500) example_driver) = 1"
proof -
  have v: "position_value 1500 = 407"
    by (simp add: position_value_closed)
  have "emitted (set_position 0 1500) example_driver
     = [transaction [writing_bytes 0x40 [0x08, 151], writing_bytes 0x40 [0x09, 1]]]"
    by (simp add: emitted_def set_position_run v example_driver_def getByte_div)
  then show ?thesis
    by simp
qed

text \<open>
  C5, amended: a successful \<open>set_position\<close> issues one transaction of the master that
  carries two separate write messages, each with its own register address and one data
  byte (not one message with two data bytes): the tick's low byte to the channel's
  off_low register and the tick's high byte to its off_high register. No other register
  changes: the channel's on_low and on_high registers and every register of every other
  channel keep their values.
\<close>

theorem set_position_frame:
  assumes "0 \<le> c" "c \<le> 15" "0 < p" "p < 3000"
  shows "fst (set_position c p self) = Inr ()
       \<and> emitted (set_position c p) self
           = [transaction
                [writing_bytes (ADDRESS self) [0x08 + 4 * c, getByte (position_value p) 0],
                 writing_bytes (ADDRESS self) [0x09 + 4 * c, getByte (position_value p) 1]]]
       \<and> uint (registers (device (snd (set_position c p self))) (0x08 + 4 * c))
           = getByte (position_value p) 0
       \<and> uint (registers (device (snd (set_position c p self))) (0x09 + 4 * c))
           = getByte (position_value p) 1
       \<and> (\<forall>r. r \<noteq> 0x08 + 4 * c \<and> r \<noteq> 0x09 + 4 * c \<longrightarrow>
             registers (device (snd (set_position c p self))) r = registers (device self) r)
       \<and> registers (device (snd (set_position c p self))) (0x06 + 4 * c)
           = registers (device self) (0x06 + 4 * c)
       \<and> registers (device (snd (set_position c p self))) (0x07 + 4 * c)
           = registers (device self) (0x07 + 4 * c)
       \<and> (\<forall>c' k. c' \<noteq> c \<and> k \<in> {0x06, 0x07, 0x08, 0x09} \<longrightarrow>
             registers (device (snd (set_position c p self))) (k + 4 * c')
               = registers (device self) (k + 4 * c'))
       \<and> ADDRESS (snd (set_position c p self)) = ADDRESS self"
proof -
  note run = set_position_run [OF assms, of self]
  have regs: "registers (device (snd (set_position c p self)))
        = (registers (device self))
            (8 + 4 * c := word_of_int (getByte (position_value p) 0),
             9 + 4 * c := word_of_int (getByte (position_value p) 1))"
    by (simp add: run)
  have e: "emitted (set_position c p) self
           = [transaction
                [writing_bytes (ADDRESS self) [0x08 + 4 * c, getByte (position_value p) 0],
                 writing_bytes (ADDRESS self) [0x09 + 4 * c, getByte (position_value p) 1]]]"
    by (simp add: emitted_def run)
  have other: "k + 4 * c' \<noteq> 8 + 4 * c" "k + 4 * c' \<noteq> 9 + 4 * c"
    if "c' \<noteq> c" "k \<in> {0x06, 0x07, 0x08, 0x09}" for c' k :: int
    using that by auto
  show ?thesis
    unfolding regs
    by (simp add: run e uint_getByte other)
qed

theorem set_position_frame_witness:
  "emitted (set_position 2 1500) example_driver
     = [transaction [writing_bytes 0x40 [16, 151], writing_bytes 0x40 [17, 1]]]
   \<and> registers (device (snd (set_position 2 1500 example_driver))) 16 = 151
   \<and> registers (device (snd (set_position 2 1500 example_driver))) 17 = 1
   \<and> registers (device (snd (set_position 2 1500 example_driver))) 14
       = registers (device example_driver) 14
   \<and> registers (device (snd (set_position 2 1500 example_driver))) 0 = 0x11
   \<and> registers (device (snd (set_position 2 1500 example_driver))) 20 = 0"
  using set_position_frame [of 2 1500 example_driver]
  by (simp add: position_value_closed example_driver_def example_chip_def getByte_div
        set_position_run)

text \<open>
  C9: \<open>set_position\<close> is a function of its arguments alone: called twice in a row with
  the same valid channel and position, it succeeds both times and sends the same two
  bytes to the same two registers both times; the chip's contents and the history of the
  object play no part.
\<close>

theorem set_position_deterministic:
  assumes "0 \<le> c" "c \<le> 15" "0 < p" "p < 3000"
  shows "fst (set_position c p self) = Inr ()
       \<and> fst (set_position c p (snd (set_position c p self))) = Inr ()
       \<and> emitted (set_position c p) (snd (set_position c p self))
           = emitted (set_position c p) self
       \<and> emitted (set_position c p) self
           = [transaction
                [writing_bytes (ADDRESS self) [0x08 + 4 * c, getByte (position_value p) 0],
                 writing_bytes (ADDRESS self) [0x09 + 4 * c, getByte (position_value p) 1]]]
       \<and> (\<forall>other. ADDRESS other = ADDRESS self \<longrightarrow>
             emitted (set_position c p) other = emitted (set_position c p) self)"
proof -
  have e: "emitted (set_position c p) s
           = [transaction
                [writing_bytes (ADDRESS s) [0x08 + 4 * c, getByte (position_value p) 0],
                 writing_bytes (ADDRESS s) [0x09 + 4 * c, getByte (position_value p) 1]]]"
    for s
    using assms by (simp add: emitted_def set_position_run)
  have r: "fst (set_position c p s) = Inr ()" for s
    using assms by (simp add: set_position_run)
  have a: "ADDRESS (snd (set_position c p self)) = ADDRESS self"
    using assms by (simp add: set_position_run)
  show ?thesis
    by (simp add: e r a)
qed

theorem set_position_deterministic_witness:
  "emitted (set_position 7 1800) (snd (set_position 7 1800 example_driver))
     = [transaction [writing_bytes 0x40 [36, 212], writing_bytes 0x40 [37, 1]]]
   \<and> emitted (set_position 7 1800) example_driver
     = [transaction [writing_bytes 0x40 [36, 212], writing_bytes 0x40 [37, 1]]]
   \<and> trace (snd (set_position 7 1800 (snd (set_position 7 1800 example_driver))))
     = [transaction [writing_bytes 0x40 [36, 212], writing_bytes 0x40 [37, 1]],
        transaction [writing_bytes 0x40 [36, 212], writing_bytes 0x40 [37, 1]]]"
  using set_position_deterministic [of 7 1800 example_driver]
  by (simp add: position_value_closed example_driver_def getByte_div set_position_run)

section \<open>Bring-up and teardown\<close>

text \<open>
  C2: the constructor performs exactly this sequence and returns: (1) it writes 121 to
  pre_scale (0xfe); (2) it reads mode1 (0x00) and writes it back with bit 0 (allcall)
  cleared; (3) it writes 100 to all_on_low (0xfa) and 0 to all_on_high (0xfb); (4) it
  writes the low and high byte of 407, the midpoint of 305 and 509, to all_off_low (0xfc)
  and all_off_high (0xfd); (5) it reads mode1 and writes it back with bit 4 (sleep)
  cleared, then sleeps 100 ms; (6) it reads mode1 and writes it back with bit 7 (restart)
  set, then sleeps 100 ms. There are exactly two sleeps and no other write.
\<close>

theorem init_sequence:
  "fst (init controller address) = Inr ()
   \<and> trace (snd (init controller address))
      = [transaction [writing_bytes address [0xfe, 121]],
         transaction [writing_bytes address [0x00], reading address 1],
         transaction [writing_bytes address
            [0x00, clearBit (uint (registers controller 0)) 0]],
         transaction [writing_bytes address [0xfa, 100]],
         transaction [writing_bytes address [0xfb, 0]],
         transaction [writing_bytes address [0xfc, getByte 407 0]],
         transaction [writing_bytes address [0xfd, getByte 407 1]],
         transaction [writing_bytes address [0x00], reading address 1],
         transaction [writing_bytes address
            [0x00, clearBit (clearBit (uint (registers controller 0)) 0) 4]],
         time_sleep 100,
         transaction [writing_bytes address [0x00], reading address 1],
         transaction [writing_bytes address
            [0x00, setBit (clearBit (clearBit (uint (registers controller 0)) 0) 4) 7]],
         time_sleep 100]
   \<and> getByte 407 0 = 151 \<and> getByte 407 1 = 1
   \<and> py_int (real_of_int (PULSE_END_HIGH + PULSE_END_LOW) / 2) = 407
   \<and> PRESCALE = 121 \<and> PULSE_START = 100
   \<and> getByte PULSE_START 0 = 100 \<and> getByte PULSE_START 1 = 0
   \<and> filter (\<lambda>e. case e of time_sleep _ \<Rightarrow> True | _ \<Rightarrow> False)
        (trace (snd (init controller address)))
      = [time_sleep 100, time_sleep 100]
   \<and> ADDRESS (snd (init controller address)) = address"
proof -
  have r: "fst (init controller address) = Inr ()"
    "ADDRESS (snd (init controller address)) = address"
    by (simp_all add: init_run)
  have t: "trace (snd (init controller address))
      = [transaction [writing_bytes address [0xfe, 121]],
         transaction [writing_bytes address [0x00], reading address 1],
         transaction [writing_bytes address
            [0x00, clearBit (uint (registers controller 0)) 0]],
         transaction [writing_bytes address [0xfa, 100]],
         transaction [writing_bytes address [0xfb, 0]],
         transaction [writing_bytes address [0xfc, 151]],
         transaction [writing_bytes address [0xfd, 1]],
         transaction [writing_bytes address [0x00], reading address 1],
         transaction [writing_bytes address
            [0x00, clearBit (clearBit (uint (registers controller 0)) 0) 4]],
         time_sleep 100,
         transaction [writing_bytes address [0x00], reading address 1],
         transaction [writing_bytes address
            [0x00, setBit (clearBit (clearBit (uint (registers controller 0)) 0) 4) 7]],
         time_sleep 100]"
    by (simp add: init_run)
  have f: "filter (\<lambda>e. case e of time_sleep _ \<Rightarrow> True | _ \<Rightarrow> False)
        (trace (snd (init controller address)))
      = [time_sleep 100, time_sleep 100]"
    unfolding t by simp
  have c: "PRESCALE = 121" "PULSE_START = 100"
    "getByte PULSE_START 0 = 100" "getByte PULSE_START 1 = 0"
    by (simp_all only: PRESCALE_def PULSE_START_def getByte_constants)
  show ?thesis
    unfolding getByte_constants
    by (intro conjI) (fact r t f c center_value refl)+
qed

theorem init_sequence_witness:
  "trace (snd (init example_chip 0x40))
      = [transaction [writing_bytes 0x40 [0xfe, 121]],
         transaction [writing_bytes 0x40 [0x00], reading 0x40 1],
         transaction [writing_bytes 0x40 [0x00, 0x10]],
         transaction [writing_bytes 0x40 [0xfa, 100]],
         transaction [writing_bytes 0x40 [0xfb, 0]],
         transaction [writing_bytes 0x40 [0xfc, 151]],
         transaction [writing_bytes 0x40 [0xfd, 1]],
         transaction [writing_bytes 0x40 [0x00], reading 0x40 1],
         transaction [writing_bytes 0x40 [0x00, 0x00]],
         time_sleep 100,
         transaction [writing_bytes 0x40 [0x00], reading 0x40 1],
         transaction [writing_bytes 0x40 [0x00, 0x80]],
         time_sleep 100]
   \<and> fst (init example_chip 0x40) = Inr ()"
  using init_sequence [of example_chip "0x40"]
  by (simp add: example_chip_def clearBit_def setBit_def)

text \<open>
  C6: the destructor reads mode1 and writes it back with the sleep bit set: for every
  prior value \<open>b\<close> of mode1 the byte written is \<open>b\<close> with bit 4 set and every other
  bit as in \<open>b\<close>, and that is what mode1 holds afterwards. Then the master is closed.
\<close>

theorem del_sets_sleep_bit:
  assumes "b = uint (registers (device self) 0)"
  shows "fst (del self) = Inr ()
       \<and> emitted del self
           = [transaction [writing_bytes (ADDRESS self) [0x00], reading (ADDRESS self) 1],
              transaction [writing_bytes (ADDRESS self) [0x00, setBit b 4]],
              master_close]
       \<and> bit (setBit b 4) 4
       \<and> (\<forall>k. k \<noteq> 4 \<longrightarrow> bit (setBit b 4) k = bit b k)
       \<and> setBit b 4 = b OR 16
       \<and> uint (registers (device (snd (del self))) 0) = setBit b 4
       \<and> (\<forall>r. r \<noteq> 0 \<longrightarrow>
             registers (device (snd (del self))) r = registers (device self) r)"
proof -
  have byte: "0 \<le> setBit b 4" "setBit b 4 < 256"
    unfolding assms by (rule setBit_byte; simp add: uint_byte)+
  have e: "emitted del self
           = [transaction [writing_bytes (ADDRESS self) [0x00], reading (ADDRESS self) 1],
              transaction [writing_bytes (ADDRESS self) [0x00, setBit b 4]],
              master_close]"
    by (simp add: emitted_def del_run assms)
  have u: "uint (registers (device (snd (del self))) 0) = setBit b 4"
    using byte by (simp add: del_run assms uint_word_of_byte)
  have o: "setBit b 4 = b OR 16"
    by (simp add: setBit_def)
  have fr: "\<forall>r. r \<noteq> 0 \<longrightarrow>
             registers (device (snd (del self))) r = registers (device self) r"
    by (simp add: del_run)
  have ok: "fst (del self) = Inr ()"
    by (simp add: del_run)
  have bits: "bit (setBit b 4) 4" "\<forall>k. k \<noteq> 4 \<longrightarrow> bit (setBit b 4) k = bit b k"
    by (simp_all add: bit_setBit)
  show ?thesis
    by (intro conjI) (fact ok e bits o u fr)+
qed

theorem del_sets_sleep_bit_witness:
  "emitted del (snd (init example_chip 0x40))
     = [transaction [writing_bytes 0x40 [0x00], reading 0x40 1],
        transaction [writing_bytes 0x40 [0x00, 0x90]],
        master_close]
   \<and> uint (registers (device (snd (del (snd (init example_chip 0x40))))) 0) = 0x90
   \<and> emitted del example_driver
     = [transaction [writing_bytes 0x40 [0x00], reading 0x40 1],
        transaction [writing_bytes 0x40 [0x00, 0x11]],
        master_close]"
  using del_sets_sleep_bit [of "0x80" "snd (init example_chip 0x40)"]
    del_sets_sleep_bit [of "0x11" example_driver]
  by (simp add: init_run example_driver_def example_chip_def clearBit_def setBit_def)

end
